theory Spec2Isabelle
  imports Complex_Main "HOL-Library.Sublist"
begin

section \<open>Python strings\<close>

text \<open>
  Strings are lists of 8-bit characters (code points 0 to 255).  The functions below are
  the string methods of Python that \<^verbatim>\<open>swap_manager.py\<close> calls, restricted to that range.
\<close>

definition is_digit :: "char \<Rightarrow> bool" where
  "is_digit c = (c \<in> set ''0123456789'')"

definition digit_val :: "char \<Rightarrow> int" where
  "digit_val c = of_char c - 48"

definition is_space :: "char \<Rightarrow> bool" where
  \<comment> \<open>\<^verbatim>\<open>str.isspace\<close>: blank, TAB, LF, VT, FF, CR, FS, GS, RS, US, NEL, NBSP\<close>
  "is_space c = ((of_char c :: nat) \<in> {9, 10, 11, 12, 13, 28, 29, 30, 31, 32, 133, 160})"

definition strip :: "string \<Rightarrow> string" where
  \<comment> \<open>\<^verbatim>\<open>s.strip()\<close>\<close>
  "strip s = rev (dropWhile is_space (rev (dropWhile is_space s)))"

definition lower_char :: "char \<Rightarrow> char" where
  "lower_char c =
     (let n = (of_char c :: nat)
      in if (65 \<le> n \<and> n \<le> 90) \<or> (192 \<le> n \<and> n \<le> 222 \<and> n \<noteq> 215)
         then char_of (n + 32) else c)"

definition lower :: "string \<Rightarrow> string" where
  \<comment> \<open>\<^verbatim>\<open>s.lower()\<close>\<close>
  "lower s = map lower_char s"

fun startswith :: "string \<Rightarrow> string \<Rightarrow> bool" where
  \<comment> \<open>\<^verbatim>\<open>s.startswith(t)\<close>\<close>
  "startswith s [] = True"
| "startswith [] (c # t) = False"
| "startswith (d # s) (c # t) = (d = c \<and> startswith s t)"

fun contains :: "string \<Rightarrow> string \<Rightarrow> bool" where
  \<comment> \<open>\<^verbatim>\<open>t in s\<close>, written \<open>contains t s\<close>\<close>
  "contains t [] = (t = [])"
| "contains t (c # s) = (startswith (c # s) t \<or> contains t s)"

section \<open>Size strings\<close>

definition units :: "string list" where
  "units = [''mib'', ''gib'', ''m'', ''g'', ''mb'', ''gb'']"

definition match_unit_end :: "string \<Rightarrow> bool" where
  \<comment> \<open>\<^verbatim>\<open>(MiB|GiB|M|G|MB|GB)$\<close> under \<^verbatim>\<open>re.IGNORECASE\<close>, matched against the whole rest of
      the string; \<^verbatim>\<open>$\<close> also matches just before a final line feed\<close>
  "match_unit_end r = (lower r \<in> set units \<or> lower r \<in> set (map (\<lambda>u. u @ [CHR 0x0A]) units))"

definition validate_size :: "string \<Rightarrow> bool" where
  \<comment> \<open>\<^verbatim>\<open>bool(re.match(r'^\d+(\.\d+)?(MiB|GiB|M|G|MB|GB)$', size_str, re.IGNORECASE))\<close>\<close>
  "validate_size size_str =
     (let ds = takeWhile is_digit size_str; r1 = dropWhile is_digit size_str
      in ds \<noteq> [] \<and>
         (case r1 of
            c # r \<Rightarrow>
              if c = CHR ''.'' \<and> takeWhile is_digit r \<noteq> []
              then match_unit_end (dropWhile is_digit r)
              else match_unit_end r1
          | [] \<Rightarrow> False))"

subsection \<open>Regular-expression searches\<close>

function findall_num_matches :: "string \<Rightarrow> (string \<times> string) list" where
  \<comment> \<open>the successive matches of \<^verbatim>\<open>\d+(\.\d+)?\<close>, left to right: the digits of each match and
      the text of its group (empty when the group took no part)\<close>
  "findall_num_matches [] = []"
| "findall_num_matches (c # cs) =
     (if is_digit c
      then (let ds = c # takeWhile is_digit cs; r = dropWhile is_digit cs
            in case r of
                 d # r' \<Rightarrow>
                   if d = CHR ''.'' \<and> takeWhile is_digit r' \<noteq> []
                   then (ds, d # takeWhile is_digit r') # findall_num_matches (dropWhile is_digit r')
                   else (ds, []) # findall_num_matches r
               | [] \<Rightarrow> [(ds, [])])
      else findall_num_matches cs)"
  by pat_completeness auto
termination
proof (relation "measure length", goal_cases)
  case 1
  show ?case by simp
next
  case (2 c cs ds r d r')
  have "length (dropWhile is_digit r') \<le> length r'"
    by (rule length_dropWhile_le)
  moreover have "length (d # r') \<le> length cs"
    using 2 length_dropWhile_le [of is_digit cs] by simp
  ultimately show ?case by simp
next
  case (3 c cs ds r d r')
  then show ?case using length_dropWhile_le [of is_digit cs] by simp
next
  case (4 c cs)
  show ?case by simp
qed


definition findall_num_group :: "string \<Rightarrow> string list" where
  \<comment> \<open>\<^verbatim>\<open>re.findall(r'\d+(\.\d+)?', s)\<close>: one capturing group, so the texts of the group\<close>
  "findall_num_group s = map snd (findall_num_matches s)"

definition match_unit_at :: "string \<Rightarrow> string option" where
  \<comment> \<open>\<^verbatim>\<open>(MiB|GiB|M|G|MB|GB)\<close> under \<^verbatim>\<open>re.IGNORECASE\<close> at the start of \<open>s\<close>: the first
      alternative that fits, in the order written\<close>
  "match_unit_at s =
     map_option (\<lambda>u. take (length u) s) (find (\<lambda>u. startswith (lower s) u) units)"

fun findall_unit :: "string \<Rightarrow> string list" where
  \<comment> \<open>\<^verbatim>\<open>re.findall(r'(MiB|GiB|M|G|MB|GB)', s, re.IGNORECASE)\<close>; a match \<open>m\<close> is never empty,
      and the search resumes behind it\<close>
  "findall_unit [] = []"
| "findall_unit (c # cs) =
     (case match_unit_at (c # cs) of
        Some m \<Rightarrow> m # findall_unit (drop (length m - 1) cs)
      | None \<Rightarrow> findall_unit cs)"

subsection \<open>Numbers\<close>

text \<open>
  A Python \<^verbatim>\<open>float\<close> is modelled by the rational number it stands for: the rounding of
  \<^verbatim>\<open>float()\<close> to 53 bits and the overflow to \<^verbatim>\<open>inf\<close> are not part of the model.
  \<^verbatim>\<open>float(s)\<close> is modelled on the unsigned decimal literals (after stripping blanks),
  which is all that the regular expressions above and \<^verbatim>\<open>parted\<close> in \<^verbatim>\<open>unit GiB\<close>
  produce; signs, exponents, underscores, \<^verbatim>\<open>inf\<close> and \<^verbatim>\<open>nan\<close> are outside it.
\<close>

datatype error =
    SystemExit nat string
  | CalledProcessError nat string "string option"
  | TimeoutExpired string
  | ValueError
  | IndexError
  | OSError

definition int_of_digits :: "string \<Rightarrow> int" where
  "int_of_digits ds = foldl (\<lambda>n c. 10 * n + digit_val c) 0 ds"

definition py_float :: "string \<Rightarrow> error + rat" where
  "py_float s =
     (let t = strip s; ip = takeWhile is_digit t; r = dropWhile is_digit t
      in case r of
           [] \<Rightarrow> if ip = [] then Inl ValueError else Inr (of_int (int_of_digits ip))
         | c # fp \<Rightarrow>
             if c = CHR ''.'' \<and> list_all is_digit fp \<and> (ip \<noteq> [] \<or> fp \<noteq> [])
             then Inr (of_int (int_of_digits ip) + of_int (int_of_digits fp) / 10 ^ length fp)
             else Inl ValueError)"


subsection \<open>The size parser of the swap-file manager\<close>


section \<open>External commands\<close>

text \<open>
  Every effect on the machine goes through \<^verbatim>\<open>subprocess.run\<close>.  The machine is a function
  from the commands issued so far and the next command to what that command does; the
  commands issued are recorded in order.  A command line is a string, except the one that
  interpolates two floats (the \<^verbatim>\<open>mkpart\<close> call), which keeps them as numbers.
  The exit status is that of the shell (the death of the shell by a signal is not modelled).
\<close>

datatype command =
    Sh string
  | MkPart string rat rat
      \<comment> \<open>\<^verbatim>\<open>sudo parted -s {disk} mkpart primary linux-swap {start}GiB {end}GiB\<close>\<close>

record proc =
  returncode :: nat
  stdout :: string
  stderr :: string
  seconds :: nat

type_synonym machine = "command list \<Rightarrow> command \<Rightarrow> proc"

record world =
  trace :: "command list"
  fstab :: string
  fstab_readable :: bool
  fstab_writable :: bool

definition issue :: "machine \<Rightarrow> command \<Rightarrow> world \<Rightarrow> proc \<times> world" where
  \<comment> \<open>\<^verbatim>\<open>subprocess.run(cmd, shell=True, capture_output=True, text=True)\<close>\<close>
  "issue env cmd w = (env (trace w) cmd, w\<lparr>trace := trace w @ [cmd]\<rparr>)"

fun str_nat :: "nat \<Rightarrow> string" where
  "str_nat n =
     (if n < 10 then [''0123456789'' ! n] else str_nat (n div 10) @ [''0123456789'' ! (n mod 10)])"

declare str_nat.simps [simp del]


definition str_CalledProcessError :: "nat \<Rightarrow> string \<Rightarrow> string" where
  \<comment> \<open>\<^verbatim>\<open>str(e)\<close> of \<^verbatim>\<open>CalledProcessError(returncode, cmd, ...)\<close>: it names the command and
      the status, never the captured error output\<close>
  "str_CalledProcessError rc cmd =
     ''Command '' @ [CHR 0x27] @ cmd @ [CHR 0x27] @ '' returned non-zero exit status ''
       @ str_nat rc @ ''.''"

section \<open>The command runners\<close>

definition SwapManager_run_cmd ::
  "machine \<Rightarrow> command \<Rightarrow> bool \<Rightarrow> world \<Rightarrow> (error + string) \<times> world" where
  \<comment> \<open>\<^verbatim>\<open>SwapManager.run_cmd\<close>: a failing checked command prints the command and its error
      output and leaves the program with \<^verbatim>\<open>sys.exit(1)\<close>\<close>
  "SwapManager_run_cmd env cmd check w =
     (let (result, w') = issue env cmd w
      in if check \<and> returncode result \<noteq> 0
         then (Inl (SystemExit 1 ''Error running command''), w')
         else (Inr (strip (stdout result)), w'))"

definition SwapFileManager_run_cmd ::
  "machine \<Rightarrow> string \<Rightarrow> bool \<Rightarrow> nat option \<Rightarrow> world \<Rightarrow> (error + string) \<times> world" where
  \<comment> \<open>\<^verbatim>\<open>SwapFileManager.run_cmd\<close>: \<^verbatim>\<open>TimeoutExpired\<close> is passed on; a failing checked command
      raises \<^verbatim>\<open>CalledProcessError(result.returncode, cmd)\<close>, without the captured output\<close>
  "SwapFileManager_run_cmd env cmd check timeout w =
     (let (result, w') = issue env (Sh cmd) w
      in if (case timeout of Some t \<Rightarrow> t < seconds result | None \<Rightarrow> False)
         then (Inl (TimeoutExpired cmd), w')
         else if returncode result \<noteq> 0 \<and> check
         then (Inl (CalledProcessError (returncode result) cmd None), w')
         else (Inr (strip (stdout result)), w'))"

section \<open>The swap-file manager\<close>

record manager =
  swap_file_path :: string
  size_setting :: string  \<comment> \<open>the attribute \<^verbatim>\<open>size\<close>\<close>
  size_bytes :: int
  fs_type :: string
  retry_count :: nat
  max_retries :: nat

definition init_manager :: manager where
  \<comment> \<open>\<^verbatim>\<open>SwapFileManager.__init__\<close>; \<^verbatim>\<open>fs_type\<close> is \<^verbatim>\<open>None\<close> until detection sets it\<close>
  "init_manager =
     \<lparr>swap_file_path = ''/swapfile'', size_setting = ''1G'', size_bytes = 0, fs_type = [],
      retry_count = 0, max_retries = 2\<rparr>"

definition cleanup_swap_file :: "machine \<Rightarrow> manager \<Rightarrow> world \<Rightarrow> (error + unit) \<times> world" where
  "cleanup_swap_file env m w =
     (case SwapFileManager_run_cmd env (''sudo swapoff '' @ swap_file_path m) False None w of
        (Inl e, w') \<Rightarrow>
          (case e of
             CalledProcessError rc cmd err \<Rightarrow>
               if contains ''Invalid argument'' (str_CalledProcessError rc cmd)
               then (case SwapFileManager_run_cmd env (''sudo rm -f '' @ swap_file_path m)
                            False None w' of
                       (Inl e', w'') \<Rightarrow> (Inl e', w'')
                     | (Inr out, w'') \<Rightarrow> (Inr (), w''))
               else (Inl e, w')
           | _ \<Rightarrow> (Inl e, w'))
      | (Inr out, w') \<Rightarrow>
          (case SwapFileManager_run_cmd env (''sudo rm -f '' @ swap_file_path m) False None w' of
             (Inl e', w'') \<Rightarrow> (Inl e', w'')
           | (Inr out', w'') \<Rightarrow> (Inr (), w'')))"

subsection \<open>The copy-on-write strategy\<close>

definition btrfs_steps :: "manager \<Rightarrow> (string \<times> string) list" where
  "btrfs_steps m =
     [(''Creating empty file'', ''sudo truncate -s 0 '' @ swap_file_path m),
      (''Disabling CoW'', ''sudo chattr +C '' @ swap_file_path m),
      (''Allocating space'', ''sudo fallocate -l '' @ size_setting m @ '' '' @ swap_file_path m),
      (''Setting permissions'', ''sudo chmod 0600 '' @ swap_file_path m),
      (''Formatting swap'', ''sudo mkswap '' @ swap_file_path m),
      (''Enabling swap'', ''sudo swapon '' @ swap_file_path m)]"

datatype step_result =
    Done
  | RetryCondition error  \<comment> \<open>the handler's test on the command and on \<^verbatim>\<open>str(e)\<close> held\<close>
  | Raised error

fun btrfs_run_steps ::
  "machine \<Rightarrow> (string \<times> string) list \<Rightarrow> world \<Rightarrow> step_result \<times> world" where
  \<comment> \<open>the \<^verbatim>\<open>for description, cmd in steps\<close> loop of \<^verbatim>\<open>btrfs_swap_creation\<close>, up to the
      decision on the retry counter\<close>
  "btrfs_run_steps env [] w = (Done, w)"
| "btrfs_run_steps env ((description, cmd) # steps) w =
     (case SwapFileManager_run_cmd env cmd True None w of
        (Inr out, w') \<Rightarrow> btrfs_run_steps env steps w'
      | (Inl e, w') \<Rightarrow>
          (case e of
             CalledProcessError rc c err \<Rightarrow>
               if contains ''swapon'' cmd \<and> contains ''Invalid argument'' (str_CalledProcessError rc c)
               then (RetryCondition e, w')
               else (Raised e, w')
           | _ \<Rightarrow> (Raised e, w')))"

function btrfs_swap_creation ::
  "machine \<Rightarrow> manager \<Rightarrow> world \<Rightarrow> (error + unit) \<times> manager \<times> world" where
  "btrfs_swap_creation env m w =
     (case btrfs_run_steps env (btrfs_steps m) w of
        (Done, w') \<Rightarrow> (Inr (), m, w')
      | (Raised e, w') \<Rightarrow> (Inl e, m, w')
      | (RetryCondition e, w') \<Rightarrow>
          if retry_count m < max_retries m
          then (let m' = m\<lparr>retry_count := retry_count m + 1\<rparr>
                in case cleanup_swap_file env m' w' of
                     (Inl e', w'') \<Rightarrow> (Inl e', m', w'')
                   | (Inr u, w'') \<Rightarrow> btrfs_swap_creation env m' w'')
          else (Inl e, m, w'))"
  by pat_completeness auto
termination
  by (relation "measure (\<lambda>(env, m, w). max_retries m - retry_count m)") auto

declare btrfs_swap_creation.simps [simp del]

subsection \<open>The standard strategy\<close>




datatype standard_result =
    Ready
  | FallbackToBtrfs
  | Failed error



subsection \<open>Choosing the strategy, and the mount table\<close>

definition fstab_line :: "string \<Rightarrow> string" where
  "fstab_line target = target @ '' none swap sw 0 0''"

definition update_fstab :: "manager \<Rightarrow> world \<Rightarrow> string \<times> world" where
  \<comment> \<open>any exception of \<^verbatim>\<open>open\<close> is caught and answered with \<^verbatim>\<open>"Failed"\<close>\<close>
  "update_fstab m w =
     (if \<not> fstab_readable w then (''Failed'', w)
      else if \<not> contains (swap_file_path m) (fstab w)
      then (if \<not> fstab_writable w then (''Failed'', w)
            else (''Added'',
                  w\<lparr>fstab := fstab w @ [CHR 0x0A] @ fstab_line (swap_file_path m) @ [CHR 0x0A]\<rparr>))
      else (''Already present'', w))"








section \<open>The partition manager\<close>

definition is_linebreak :: "char \<Rightarrow> bool" where
  "is_linebreak c = ((of_char c :: nat) \<in> {10, 11, 12, 13, 28, 29, 30, 133})"

fun splitlines_acc :: "string \<Rightarrow> string \<Rightarrow> string list" where
  "splitlines_acc acc [] = (if acc = [] then [] else [rev acc])"
| "splitlines_acc acc (c # cs) =
     (if is_linebreak c
      then (case cs of
              d # cs' \<Rightarrow>
                if c = CHR 0x0D \<and> d = CHR 0x0A then rev acc # splitlines_acc [] cs'
                else rev acc # splitlines_acc [] cs
            | [] \<Rightarrow> [rev acc])
      else splitlines_acc (c # acc) cs)"

definition splitlines :: "string \<Rightarrow> string list" where
  \<comment> \<open>\<^verbatim>\<open>s.splitlines()\<close>\<close>
  "splitlines s = splitlines_acc [] s"

fun split_char :: "char \<Rightarrow> string \<Rightarrow> string list" where
  \<comment> \<open>\<^verbatim>\<open>s.split(sep)\<close> for a separator of one character\<close>
  "split_char sep [] = [[]]"
| "split_char sep (c # cs) =
     (if c = sep then [] # split_char sep cs
      else (case split_char sep cs of f # fs \<Rightarrow> (c # f) # fs | [] \<Rightarrow> [[c]]))"

fun replace :: "string \<Rightarrow> string \<Rightarrow> string \<Rightarrow> string" where
  \<comment> \<open>\<^verbatim>\<open>s.replace(old, new)\<close>, written \<open>replace old new s\<close>, for the non-empty \<open>old\<close> of
      the source (an empty \<open>old\<close> leaves \<open>s\<close> as it is here)\<close>
  "replace old new [] = []"
| "replace old new (c # cs) =
     (if old \<noteq> [] \<and> startswith (c # cs) old
      then new @ replace old new (drop (length old - 1) cs)
      else c # replace old new cs)"

definition py_int :: "string \<Rightarrow> error + int" where
  \<comment> \<open>\<^verbatim>\<open>int(s)\<close> on decimal integers, signed or not (underscores are outside the model)\<close>
  "py_int s =
     (let t = strip s;
          (neg, ds) = (case t of
                         c # r \<Rightarrow> if c = CHR ''-'' then (True, r)
                                  else if c = CHR ''+'' then (False, r) else (False, t)
                       | [] \<Rightarrow> (False, t))
      in if ds \<noteq> [] \<and> list_all is_digit ds
         then Inr (if neg then - int_of_digits ds else int_of_digits ds)
         else Inl ValueError)"

definition validate_size_partition :: "string \<Rightarrow> bool" where
  \<comment> \<open>\<^verbatim>\<open>SwapManager.validate_size\<close>: the same pattern and flags as the swap-file manager's\<close>
  "validate_size_partition size_str = validate_size size_str"




fun first :: "'a list \<Rightarrow> error + 'a" where
  \<comment> \<open>\<^verbatim>\<open>xs[0]\<close>, which raises on the empty list\<close>
  "first (x # xs) = Inr x"
| "first [] = Inl IndexError"



subsection \<open>Creating the partition\<close>

definition backup_partition_table ::
  "machine \<Rightarrow> string \<Rightarrow> string \<Rightarrow> world \<Rightarrow> (error + string) \<times> world" where
  \<comment> \<open>\<open>timestamp\<close> is \<^verbatim>\<open>datetime.datetime.now().strftime("%Y%m%d_%H%M%S")\<close>\<close>
  "backup_partition_table env timestamp disk w =
     (let backup_file = ''/tmp/partition_table_'' @ replace ''/dev/'' [] disk @ ''_'' @ timestamp
                          @ ''.backup''
      in case SwapManager_run_cmd env (Sh (''sudo sfdisk --dump '' @ disk @ '' > '' @ backup_file))
                True w of
           (Inl e, w') \<Rightarrow> (Inl e, w')
         | (Inr out, w') \<Rightarrow> (Inr backup_file, w'))"

definition last_end_of :: "string \<Rightarrow> string \<Rightarrow> rat" where
  \<comment> \<open>the loop over \<^verbatim>\<open>parted_print.splitlines()\<close> that leaves the largest end in
      \<^verbatim>\<open>last_end\<close>\<close>
  "last_end_of disk parted_print =
     foldl (\<lambda>last_end line.
              if startswith line ''#'' \<or> startswith line disk then last_end
              else (let fields = split_char (CHR '':'') line
                    in if 3 < length fields
                       then (case py_float (replace ''GiB'' [] (fields ! 2)) of
                               Inr end_gib \<Rightarrow> if last_end < end_gib then end_gib else last_end
                             | Inl e \<Rightarrow> last_end)
                       else last_end))
           0 (splitlines parted_print)"

definition create_swap_partition_gib :: "string \<Rightarrow> error + rat" where
  \<comment> \<open>the requested size in GiB as \<^verbatim>\<open>create_swap_partition\<close> reads it: here the pattern of
      the number has a capturing group, so \<^verbatim>\<open>re.findall\<close> returns the group's text\<close>
  "create_swap_partition_gib size_str =
     (case first (findall_num_group size_str) of
        Inl e \<Rightarrow> Inl e
      | Inr n \<Rightarrow>
          (case py_float n of
             Inl e \<Rightarrow> Inl e
           | Inr num \<Rightarrow>
               (case first (findall_unit size_str) of
                  Inl e \<Rightarrow> Inl e
                | Inr u \<Rightarrow>
                    Inr (if lower u \<in> set [''m'', ''mb'', ''mib''] then num / 1024 else num))))"

definition new_parts_of :: "string list \<Rightarrow> string list \<Rightarrow> string list" where
  \<comment> \<open>\<^verbatim>\<open>[p for p in part_list_after if p not in parts_before]\<close>\<close>
  "new_parts_of parts_before part_list_after =
     filter (\<lambda>p. p \<notin> set parts_before) part_list_after"

definition detect_new_partition :: "string list \<Rightarrow> string list \<Rightarrow> error + string" where
  "detect_new_partition parts_before part_list_after =
     (let new_parts = new_parts_of parts_before part_list_after
      in if new_parts = [] then Inl (SystemExit 1 ''Failed to detect new partition.'')
         else Inr (''/dev/'' @ last new_parts))"

definition partition_fstab :: "string \<Rightarrow> world \<Rightarrow> (error + bool) \<times> world" where
  \<comment> \<open>the update of \<^verbatim>\<open>/etc/fstab\<close> at the end of \<^verbatim>\<open>create_swap_partition\<close>; the result
      tells whether the line was added; an exception of \<^verbatim>\<open>open\<close> is not caught here\<close>
  "partition_fstab swap_partition w =
     (if \<not> fstab_readable w then (Inl OSError, w)
      else if \<not> contains swap_partition (fstab w)
      then (if \<not> fstab_writable w then (Inl OSError, w)
            else (Inr True,
                  w\<lparr>fstab := fstab w @ [CHR 0x0A] @ fstab_line swap_partition @ [CHR 0x0A]\<rparr>))
      else (Inr False, w))"

definition format_and_enable ::
  "machine \<Rightarrow> string \<Rightarrow> world \<Rightarrow> (error + string) \<times> world" where
  \<comment> \<open>\<^verbatim>\<open>mkswap\<close>, \<^verbatim>\<open>swapon\<close> and the mount table, for the detected partition\<close>
  "format_and_enable env swap_partition w =
     (case SwapManager_run_cmd env (Sh (''sudo mkswap '' @ swap_partition)) True w of
        (Inl e, w1) \<Rightarrow> (Inl e, w1)
      | (Inr out1, w1) \<Rightarrow>
          (case SwapManager_run_cmd env (Sh (''sudo /sbin/swapon '' @ swap_partition)) True w1 of
             (Inl e, w2) \<Rightarrow> (Inl e, w2)
           | (Inr out2, w2) \<Rightarrow>
               (case partition_fstab swap_partition w2 of
                  (Inl e, w3) \<Rightarrow> (Inl e, w3)
                | (Inr added, w3) \<Rightarrow> (Inr swap_partition, w3))))"

definition make_partition ::
  "machine \<Rightarrow> string \<Rightarrow> string \<Rightarrow> string list \<Rightarrow> rat \<Rightarrow> world \<Rightarrow> (error + string) \<times> world" where
  \<comment> \<open>from the computation of the size to the detection of the new partition\<close>
  "make_partition env disk size_str parts_before last_end w =
     (case create_swap_partition_gib size_str of
        Inl e \<Rightarrow> (Inl e, w)
      | Inr size_gib \<Rightarrow>
          (let start = last_end; end = last_end + size_gib
           in case SwapManager_run_cmd env (Sh (''lsblk -b -n -o SIZE '' @ disk)) True w of
                (Inl e, w1) \<Rightarrow> (Inl e, w1)
              | (Inr out, w1) \<Rightarrow>
                  (case py_int out of
                     Inl e \<Rightarrow> (Inl e, w1)
                   | Inr disk_size_bytes \<Rightarrow>
                       (let disk_size_gib = of_int disk_size_bytes / 1024 ^ 3
                        in if disk_size_gib < end
                           then (Inl (SystemExit 1 ''Not enough space on disk for swap partition''), w1)
                           else (case SwapManager_run_cmd env (MkPart disk start end) True w1 of
                                   (Inl e, w2) \<Rightarrow> (Inl e, w2)
                                 | (Inr out2, w2) \<Rightarrow>
                                     (case SwapManager_run_cmd env (Sh (''lsblk -ln -o NAME '' @ disk))
                                             True w2 of
                                        (Inl e, w3) \<Rightarrow> (Inl e, w3)
                                      | (Inr after, w3) \<Rightarrow>
                                          (case detect_new_partition parts_before (splitlines after) of
                                             Inl e \<Rightarrow> (Inl e, w3)
                                           | Inr swap_partition \<Rightarrow>
                                               format_and_enable env swap_partition w3)))))))"

definition create_swap_partition ::
  "machine \<Rightarrow> bool \<Rightarrow> string \<Rightarrow> string \<Rightarrow> string \<Rightarrow> world \<Rightarrow> (error + string) \<times> world" where
  \<comment> \<open>\<open>proceed\<close> is the answer to "Do you want to continue?"; the result on success is the
      device path of the new swap partition\<close>
  "create_swap_partition env proceed timestamp disk size_str w =
     (if \<not> proceed then (Inl (SystemExit 0 ''Aborted by user.''), w)
      else (case backup_partition_table env timestamp disk w of
              (Inl e, w1) \<Rightarrow> (Inl e, w1)
            | (Inr backup_file, w1) \<Rightarrow>
                (case SwapManager_run_cmd env (Sh (''lsblk -ln -o NAME '' @ disk)) True w1 of
                   (Inl e, w2) \<Rightarrow> (Inl e, w2)
                 | (Inr part_list, w2) \<Rightarrow>
                     (let parts_before = map strip (splitlines part_list)
                      in case SwapManager_run_cmd env
                                (Sh (''sudo parted -m '' @ disk @ '' unit GiB print'')) True w2 of
                           (Inl e, w3) \<Rightarrow> (Inl e, w3)
                         | (Inr parted_print, w3) \<Rightarrow>
                             make_partition env disk size_str parts_before
                               (last_end_of disk parted_print) w3))))"

section \<open>Machines and tables used in the examples\<close>

definition LF :: string where
  "LF = [CHR 0x0A]"

definition finished :: "nat \<Rightarrow> string \<Rightarrow> string \<Rightarrow> proc" where
  "finished rc out err = \<lparr>returncode = rc, stdout = out, stderr = err, seconds = 1\<rparr>"

definition empty_world :: world where
  "empty_world = \<lparr>trace = [], fstab = [], fstab_readable = True, fstab_writable = True\<rparr>"

definition swapon_refused :: machine where
  \<comment> \<open>every command succeeds, except that \<^verbatim>\<open>swapon\<close> on \<^verbatim>\<open>/swapfile\<close> always leaves with
      status 255 and the message of the kernel's \<^verbatim>\<open>EINVAL\<close>\<close>
  "swapon_refused history cmd =
     (if cmd = Sh ''sudo swapon /swapfile''
      then finished 255 [] ''swapon: /swapfile: swapon failed: Invalid argument''
      else finished 0 [] [])"


definition all_fail :: machine where
  "all_fail history cmd = finished 1 [] ''permission denied''"

definition blank_disk :: machine where
  \<comment> \<open>\<^verbatim>\<open>/dev/sdb\<close>, a disk of 100 GiB with a partition table and no partition; after
      \<^verbatim>\<open>mkpart\<close> the listing shows \<^verbatim>\<open>sdb1\<close>\<close>
  "blank_disk history cmd =
     (if cmd = Sh ''lsblk -ln -o NAME /dev/sdb''
      then (if list_ex (\<lambda>c. case c of MkPart d s e \<Rightarrow> True | Sh l \<Rightarrow> False) history
            then finished 0 (''sdb'' @ LF @ ''sdb1'' @ LF) []
            else finished 0 (''sdb'' @ LF) [])
      else if cmd = Sh ''sudo parted -m /dev/sdb unit GiB print''
      then finished 0 (''BYT;'' @ LF @ ''/dev/sdb:100GiB:scsi:512:512:gpt:Disk:;'' @ LF) []
      else if cmd = Sh ''lsblk -b -n -o SIZE /dev/sdb''
      then finished 0 (''107374182400'' @ LF) []
      else finished 0 [] [])"


definition swapon_refused_odd_path :: machine where
  \<comment> \<open>as \<open>swapon_refused\<close>, for a swap file whose path holds the words "Invalid argument"\<close>
  "swapon_refused_odd_path history cmd =
     (if cmd = Sh ''sudo swapon /mnt/Invalid argument/swapfile''
      then finished 255 [] ''swapon: /mnt/Invalid: swapon failed: No such file or directory''
      else finished 0 [] [])"

definition odd :: manager where
  \<comment> \<open>a manager whose swap file lies in a directory named "Invalid argument"\<close>
  "odd = init_manager\<lparr>swap_file_path := ''/mnt/Invalid argument/swapfile''\<rparr>"

definition odd_attempt :: "command list" where
  "odd_attempt =
     [Sh ''sudo truncate -s 0 /mnt/Invalid argument/swapfile'',
      Sh ''sudo chattr +C /mnt/Invalid argument/swapfile'',
      Sh ''sudo fallocate -l 1G /mnt/Invalid argument/swapfile'',
      Sh ''sudo chmod 0600 /mnt/Invalid argument/swapfile'',
      Sh ''sudo mkswap /mnt/Invalid argument/swapfile'',
      Sh ''sudo swapon /mnt/Invalid argument/swapfile'']"

definition odd_cleanup :: "command list" where
  "odd_cleanup =
     [Sh ''sudo swapoff /mnt/Invalid argument/swapfile'',
      Sh ''sudo rm -f /mnt/Invalid argument/swapfile'']"






definition swap_lines_for :: "string \<Rightarrow> string \<Rightarrow> string list" where
  \<comment> \<open>the lines of a mount table that are the swap line of \<open>target\<close>\<close>
  "swap_lines_for target table =
     filter (\<lambda>l. l = fstab_line target) (split_char (CHR 0x0A) table)"

definition root_only_table :: string where
  "root_only_table = ''/dev/sda1 / ext4 defaults 0 1'' @ LF"

section \<open>Substrings\<close>

lemma startswith_iff: "startswith s t \<longleftrightarrow> (\<exists>r. s = t @ r)"
  by (induction s t rule: startswith.induct) auto

lemma contains_iff: "contains t s \<longleftrightarrow> (\<exists>ps ss. s = ps @ t @ ss)"
proof (induction s)
  case Nil
  then show ?case by simp
next
  case (Cons c s)
  show ?case
  proof
    assume "contains t (c # s)"
    then consider "startswith (c # s) t" | "contains t s" by auto
    then show "\<exists>ps ss. c # s = ps @ t @ ss"
    proof cases
      case 1
      then obtain r where "c # s = t @ r" using startswith_iff by blast
      then have "c # s = [] @ t @ r" by simp
      then show ?thesis by blast
    next
      case 2
      then obtain ps ss where "s = ps @ t @ ss" using Cons.IH by blast
      then have "c # s = (c # ps) @ t @ ss" by simp
      then show ?thesis by blast
    qed
  next
    assume "\<exists>ps ss. c # s = ps @ t @ ss"
    then obtain ps ss where e: "c # s = ps @ t @ ss" by blast
    show "contains t (c # s)"
    proof (cases ps)
      case Nil
      with e have "startswith (c # s) t" using startswith_iff by auto
      then show ?thesis by simp
    next
      case (Cons p ps')
      with e have "s = ps' @ t @ ss" by simp
      then have "contains t s" using Cons.IH by blast
      then show ?thesis by simp
    qed
  qed
qed

section \<open>The retry of the copy-on-write strategy\<close>

text \<open>
  The retry itself is bounded as intended whenever its test holds.  The test reads the
  text of the command, so it holds for a swap file whose path contains "Invalid argument",
  whatever the error output says: then a \<^verbatim>\<open>swapon\<close> that keeps failing leads to three
  attempts, two cleanups in between, and the error of the third attempt.
\<close>

lemma odd_test:
  "contains ''swapon'' ''sudo swapon /mnt/Invalid argument/swapfile''
   \<and> contains ''Invalid argument''
         (str_CalledProcessError 255 ''sudo swapon /mnt/Invalid argument/swapfile'')"
  by code_simp

lemma odd_steps:
  "btrfs_run_steps swapon_refused_odd_path (btrfs_steps (odd\<lparr>retry_count := k\<rparr>)) w =
     (RetryCondition (CalledProcessError 255 ''sudo swapon /mnt/Invalid argument/swapfile'' None),
      w\<lparr>trace := trace w @ odd_attempt\<rparr>)"
  using odd_test
  by (simp add: btrfs_steps_def odd_def init_manager_def SwapFileManager_run_cmd_def issue_def
        swapon_refused_odd_path_def finished_def odd_attempt_def)

lemma odd_clean:
  "cleanup_swap_file swapon_refused_odd_path (odd\<lparr>retry_count := k\<rparr>) w =
     (Inr (), w\<lparr>trace := trace w @ odd_cleanup\<rparr>)"
  by (simp add: cleanup_swap_file_def odd_def init_manager_def SwapFileManager_run_cmd_def
        issue_def swapon_refused_odd_path_def finished_def odd_cleanup_def)

lemma odd_third:
  "btrfs_swap_creation swapon_refused_odd_path (odd\<lparr>retry_count := 2\<rparr>) w =
     (Inl (CalledProcessError 255 ''sudo swapon /mnt/Invalid argument/swapfile'' None),
      odd\<lparr>retry_count := 2\<rparr>, w\<lparr>trace := trace w @ odd_attempt\<rparr>)"
  by (subst btrfs_swap_creation.simps) (simp add: odd_steps, simp add: odd_def init_manager_def)

lemma odd_second:
  "btrfs_swap_creation swapon_refused_odd_path (odd\<lparr>retry_count := 1\<rparr>) w =
     (Inl (CalledProcessError 255 ''sudo swapon /mnt/Invalid argument/swapfile'' None),
      odd\<lparr>retry_count := 2\<rparr>,
      w\<lparr>trace := trace w @ odd_attempt @ odd_cleanup @ odd_attempt\<rparr>)"
proof -
  have m: "retry_count (odd\<lparr>retry_count := 1\<rparr>) < max_retries (odd\<lparr>retry_count := 1\<rparr>)"
    by (simp add: odd_def init_manager_def)
  have u: "(odd\<lparr>retry_count := 1\<rparr>)\<lparr>retry_count := retry_count (odd\<lparr>retry_count := 1\<rparr>) + 1\<rparr>
             = odd\<lparr>retry_count := 2\<rparr>"
    by simp
  show ?thesis
    by (subst btrfs_swap_creation.simps)
       (simp only: odd_steps m u Let_def odd_clean odd_third step_result.case prod.case
          sum.case if_True, simp)
qed

lemma odd_first:
  "btrfs_swap_creation swapon_refused_odd_path (odd\<lparr>retry_count := 0\<rparr>) w =
     (Inl (CalledProcessError 255 ''sudo swapon /mnt/Invalid argument/swapfile'' None),
      odd\<lparr>retry_count := 2\<rparr>,
      w\<lparr>trace := trace w @ odd_attempt @ odd_cleanup @ odd_attempt @ odd_cleanup @ odd_attempt\<rparr>)"
proof -
  have m: "retry_count (odd\<lparr>retry_count := 0\<rparr>) < max_retries (odd\<lparr>retry_count := 0\<rparr>)"
    by (simp add: odd_def init_manager_def)
  have u: "(odd\<lparr>retry_count := 0\<rparr>)\<lparr>retry_count := retry_count (odd\<lparr>retry_count := 0\<rparr>) + 1\<rparr>
             = odd\<lparr>retry_count := 1\<rparr>"
    by simp
  show ?thesis
    by (subst btrfs_swap_creation.simps)
       (simp only: odd_steps m u Let_def odd_clean odd_second step_result.case prod.case
          sum.case if_True, simp)
qed

lemma btrfs_swap_creation_retries_on_command_text:
  "btrfs_swap_creation swapon_refused_odd_path odd empty_world =
     (Inl (CalledProcessError 255 ''sudo swapon /mnt/Invalid argument/swapfile'' None),
      odd\<lparr>retry_count := 2\<rparr>,
      empty_world\<lparr>trace :=
        odd_attempt @ odd_cleanup @ odd_attempt @ odd_cleanup @ odd_attempt\<rparr>)"
proof -
  have "odd\<lparr>retry_count := 0\<rparr> = odd"
    by (simp add: odd_def init_manager_def)
  then show ?thesis
    using odd_first [of empty_world] by (simp add: empty_world_def)
qed

text \<open>
  Claim C2.  With \<^verbatim>\<open>max_retries = 2\<close>, a \<^verbatim>\<open>swapon\<close> that keeps failing because the file is
  not usable as swap should make \<^verbatim>\<open>btrfs_swap_creation\<close> run three attempts, each retry
  behind a cleanup, and then give up.  On the machine \<open>swapon_refused\<close>, where
  \<^verbatim>\<open>swapon /swapfile\<close> always leaves with status 255 and writes
  "swapon failed: Invalid argument" to its error output, the model of the source runs one
  attempt of six commands, no cleanup, leaves the retry counter at 0 and raises the
  \<^verbatim>\<open>CalledProcessError\<close> of \<^verbatim>\<open>swapon\<close>: the handler looks for "Invalid argument" in
  \<^verbatim>\<open>str(e)\<close>, and the error raised by \<^verbatim>\<open>run_cmd\<close> does not carry the error output.
\<close>

theorem btrfs_swap_creation_no_retry_on_refused_swapon:
  "btrfs_swap_creation swapon_refused init_manager empty_world =
     (Inl (CalledProcessError 255 ''sudo swapon /swapfile'' None), init_manager,
      empty_world\<lparr>trace :=
        [Sh ''sudo truncate -s 0 /swapfile'', Sh ''sudo chattr +C /swapfile'',
         Sh ''sudo fallocate -l 1G /swapfile'', Sh ''sudo chmod 0600 /swapfile'',
         Sh ''sudo mkswap /swapfile'', Sh ''sudo swapon /swapfile'']\<rparr>)"
  by code_simp

section \<open>The bounds of the new partition\<close>

text \<open>
  Claim C1.  The end of the new partition should be \<^verbatim>\<open>last_end\<close> plus the requested size in
  GiB, and the step should stop for lack of space exactly when that end lies beyond the
  disk.  On the disk \<open>blank_disk\<close> (100 GiB, no partition, so \<^verbatim>\<open>last_end\<close> is 0) the model of
  the source does neither.  For the size "2GiB" the text of the capturing group is empty, so
  \<^verbatim>\<open>float('')\<close> raises \<^verbatim>\<open>ValueError\<close> after three commands and no partition is made.  For
  the size "150.5G" the group is ".5": the partition is made from 0 GiB to 0.5 GiB and the
  step succeeds, although 150.5 GiB lie beyond the 100 GiB of the disk.
\<close>

theorem create_swap_partition_reads_only_the_fraction:
  "validate_size_partition ''2GiB''
   \<and> create_swap_partition blank_disk True ''20260101_000000'' ''/dev/sdb'' ''2GiB'' empty_world =
     (Inl ValueError,
      empty_world\<lparr>trace :=
        [Sh ''sudo sfdisk --dump /dev/sdb > /tmp/partition_table_sdb_20260101_000000.backup'',
         Sh ''lsblk -ln -o NAME /dev/sdb'', Sh ''sudo parted -m /dev/sdb unit GiB print'']\<rparr>)
   \<and> validate_size_partition ''150.5G''
   \<and> create_swap_partition blank_disk True ''20260101_000000'' ''/dev/sdb'' ''150.5G'' empty_world =
     (Inr ''/dev/sdb1'',
      empty_world\<lparr>trace :=
        [Sh ''sudo sfdisk --dump /dev/sdb > /tmp/partition_table_sdb_20260101_000000.backup'',
         Sh ''lsblk -ln -o NAME /dev/sdb'', Sh ''sudo parted -m /dev/sdb unit GiB print'',
         Sh ''lsblk -b -n -o SIZE /dev/sdb'', MkPart ''/dev/sdb'' 0 (1 / 2),
         Sh ''lsblk -ln -o NAME /dev/sdb'', Sh ''sudo mkswap /dev/sdb1'',
         Sh ''sudo /sbin/swapon /dev/sdb1''],
        fstab := LF @ ''/dev/sdb1 none swap sw 0 0'' @ LF\<rparr>)"
  by code_simp

section \<open>Detecting the new partition\<close>

text \<open>
  Claim C3, as stated, asks for a failure whenever the difference of the two listings does
  not hold exactly one entry.  With two new entries the source does not fail: it takes the
  last one.
\<close>

theorem detect_new_partition_two_new_entries:
  "new_parts_of [''sda'', ''sda1''] [''sda'', ''sda1'', ''sda2'', ''sda3''] = [''sda2'', ''sda3'']
   \<and> detect_new_partition [''sda'', ''sda1''] [''sda'', ''sda1'', ''sda2'', ''sda3'']
       = Inr ''/dev/sda3''"
  by code_simp

text \<open>
  Claim C3, amended.  The difference holds the entries of the listing taken after the
  mutation that are not in the listing taken before, in their order.  If it holds exactly
  one entry, that entry is the detected partition; the step fails exactly when the
  difference is empty, as it is when the two listings are equal; otherwise the last new
  entry is detected.
\<close>

theorem detect_new_partition_difference:
  "set (new_parts_of parts_before part_list_after) = set part_list_after - set parts_before
   \<and> (new_parts_of parts_before part_list_after = [p] \<longrightarrow>
        detect_new_partition parts_before part_list_after = Inr (''/dev/'' @ p))
   \<and> (detect_new_partition parts_before part_list_after
         = Inl (SystemExit 1 ''Failed to detect new partition.'')
        \<longleftrightarrow> new_parts_of parts_before part_list_after = [])
   \<and> (new_parts_of parts_before part_list_after \<noteq> [] \<longrightarrow>
        detect_new_partition parts_before part_list_after
          = Inr (''/dev/'' @ last (new_parts_of parts_before part_list_after)))
   \<and> detect_new_partition parts_before parts_before
       = Inl (SystemExit 1 ''Failed to detect new partition.'')"
  by (auto simp: detect_new_partition_def new_parts_of_def Let_def)

theorem detect_new_partition_difference_witness:
  "new_parts_of [''sda'', ''sda1''] [''sda'', ''sda1'', ''sda2''] = [''sda2'']
   \<and> detect_new_partition [''sda'', ''sda1''] [''sda'', ''sda1'', ''sda2''] = Inr ''/dev/sda2''
   \<and> new_parts_of [''sda'', ''sda1''] [''sda'', ''sda1''] = []
   \<and> detect_new_partition [''sda'', ''sda1''] [''sda'', ''sda1'']
       = Inl (SystemExit 1 ''Failed to detect new partition.'')"
proof -
  have d: "new_parts_of [''sda'', ''sda1''] [''sda'', ''sda1'', ''sda2''] = [''sda2'']"
    by (simp add: new_parts_of_def)
  have e: "new_parts_of [''sda'', ''sda1''] [''sda'', ''sda1''] = []"
    by (simp add: new_parts_of_def)
  show ?thesis
    using d e
      detect_new_partition_difference
        [of "[''sda'', ''sda1'']" "[''sda'', ''sda1'', ''sda2'']" "''sda2''"]
      detect_new_partition_difference [of "[''sda'', ''sda1'']" "[''sda'', ''sda1'']" "''sda2''"]
    by simp
qed

section \<open>The command runners and their errors\<close>

text \<open>
  Claim C9, as stated, asks every runner to raise a typed error that the provisioner can
  catch.  The runner of the partition manager ends the program instead.
\<close>

theorem SwapManager_run_cmd_exits:
  "SwapManager_run_cmd all_fail (Sh ''lsblk -ln -o NAME /dev/sdb'') True empty_world =
     (Inl (SystemExit 1 ''Error running command''),
      empty_world\<lparr>trace := [Sh ''lsblk -ln -o NAME /dev/sdb'']\<rparr>)"
  by code_simp

text \<open>
  Claim C9, amended.  A checked command that leaves with a status other than 0 (within its
  timeout, where one is given) makes the runner of the swap-file manager raise a
  \<^verbatim>\<open>CalledProcessError\<close> with the status and the command, and the step loop that issued the
  command receives that error; the runner of the partition manager ends the program with
  status 1.
\<close>

theorem run_cmd_failure:
  assumes "returncode (env (trace w) (Sh cmd)) = rc" and "rc \<noteq> 0"
    and "case timeout of Some t \<Rightarrow> seconds (env (trace w) (Sh cmd)) \<le> t | None \<Rightarrow> True"
  shows "SwapFileManager_run_cmd env cmd True timeout w =
           (Inl (CalledProcessError rc cmd None), w\<lparr>trace := trace w @ [Sh cmd]\<rparr>)
       \<and> fst (btrfs_run_steps env ((description, cmd) # steps) w)
           = (if contains ''swapon'' cmd
                 \<and> contains ''Invalid argument'' (str_CalledProcessError rc cmd)
              then RetryCondition (CalledProcessError rc cmd None)
              else Raised (CalledProcessError rc cmd None))
       \<and> SwapManager_run_cmd env (Sh cmd) True w =
           (Inl (SystemExit 1 ''Error running command''), w\<lparr>trace := trace w @ [Sh cmd]\<rparr>)"
  using assms
  by (auto simp: SwapFileManager_run_cmd_def SwapManager_run_cmd_def issue_def Let_def
           split: option.splits)

theorem run_cmd_failure_witness:
  "SwapFileManager_run_cmd all_fail ''sudo mkswap /swapfile'' True (Some 30) empty_world =
     (Inl (CalledProcessError 1 ''sudo mkswap /swapfile'' None),
      empty_world\<lparr>trace := [Sh ''sudo mkswap /swapfile'']\<rparr>)
   \<and> SwapManager_run_cmd all_fail (Sh ''sudo mkswap /swapfile'') True empty_world =
     (Inl (SystemExit 1 ''Error running command''),
      empty_world\<lparr>trace := [Sh ''sudo mkswap /swapfile'']\<rparr>)"
proof -
  have a: "returncode (all_fail (trace empty_world) (Sh ''sudo mkswap /swapfile'')) = 1"
    by (simp add: all_fail_def finished_def)
  have b: "(1::nat) \<noteq> 0" by simp
  have c: "case Some (30::nat) of
             Some t \<Rightarrow> seconds (all_fail (trace empty_world) (Sh ''sudo mkswap /swapfile'')) \<le> t
           | None \<Rightarrow> True"
    by (simp add: all_fail_def finished_def)
  show ?thesis
    using a b c
      run_cmd_failure [where env = all_fail and w = empty_world
        and cmd = "''sudo mkswap /swapfile''" and rc = 1 and timeout = "Some 30"]
    by (simp add: empty_world_def)
qed

section \<open>A target that already occurs in the mount table\<close>

text \<open>
  Claim C10.  If the path of the target occurs anywhere in the text of \<^verbatim>\<open>/etc/fstab\<close>, be
  it in a comment or as the beginning of another path, both updates of the mount table
  answer that the entry is already present and leave the file as it is.
\<close>

theorem fstab_substring_counts_as_present:
  assumes "fstab w = before @ target @ behind" and "fstab_readable w"
  shows "update_fstab (m\<lparr>swap_file_path := target\<rparr>) w = (''Already present'', w)
       \<and> partition_fstab target w = (Inr False, w)"
proof -
  have "contains target (fstab w)"
    using assms(1) contains_iff by blast
  then show ?thesis
    using assms(2) by (simp add: update_fstab_def partition_fstab_def)
qed

theorem fstab_substring_counts_as_present_witness:
  "update_fstab (init_manager\<lparr>swap_file_path := ''/swapfile''\<rparr>)
     (empty_world\<lparr>fstab := ''# old '' @ ''/swapfile'' @ ''2 none swap sw 0 0''\<rparr>)
     = (''Already present'', empty_world\<lparr>fstab := ''# old '' @ ''/swapfile'' @ ''2 none swap sw 0 0''\<rparr>)
   \<and> \<not> contains (fstab_line ''/swapfile'') (''# old '' @ ''/swapfile'' @ ''2 none swap sw 0 0'')"
proof -
  have a: "fstab (empty_world\<lparr>fstab := ''# old '' @ ''/swapfile'' @ ''2 none swap sw 0 0''\<rparr>)
             = ''# old '' @ ''/swapfile'' @ ''2 none swap sw 0 0''"
    by simp
  have b: "fstab_readable (empty_world\<lparr>fstab := ''# old '' @ ''/swapfile'' @ ''2 none swap sw 0 0''\<rparr>)"
    by (simp add: empty_world_def)
  have c: "\<not> contains (fstab_line ''/swapfile'') (''# old '' @ ''/swapfile'' @ ''2 none swap sw 0 0'')"
    by code_simp
  show ?thesis
    using fstab_substring_counts_as_present [OF a b, of init_manager] c by simp
qed

section \<open>The strategy on a copy-on-write filesystem\<close>












section \<open>Updating the mount table twice\<close>

lemma split_char_not_Nil: "split_char c s \<noteq> []"
  by (induction s) (auto split: list.splits)

lemma split_char_append: "split_char c (a @ c # b) = split_char c a @ split_char c b"
proof (induction a)
  case Nil
  show ?case by simp
next
  case (Cons x a)
  obtain f fs where f: "split_char c a = f # fs"
    using split_char_not_Nil [of c a] by (cases "split_char c a") auto
  show ?case
    using Cons f by (auto split: list.splits)
qed

lemma split_char_no_separator: "c \<notin> set s \<Longrightarrow> split_char c s = [s]"
  by (induction s) auto

lemma split_char_substring:
  "l \<in> set (split_char c s) \<Longrightarrow> \<exists>ps ss. s = ps @ l @ ss"
proof (induction s arbitrary: l)
  case Nil
  then show ?case by simp
next
  case (Cons x s)
  obtain f fs where f: "split_char c s = f # fs"
    using split_char_not_Nil [of c s] by (cases "split_char c s") auto
  have ff: "\<exists>ps ss. s = ps @ f @ ss"
    using Cons.IH [of f] f by simp
  show ?case
  proof (cases "x = c")
    case True
    with Cons.prems have "l = [] \<or> l \<in> set (split_char c s)" by auto
    then show ?thesis
    proof
      assume "l = []"
      then have "x # s = [] @ l @ (x # s)" by simp
      then show ?thesis by blast
    next
      assume "l \<in> set (split_char c s)"
      then obtain ps ss where "s = ps @ l @ ss" using Cons.IH by blast
      then have "x # s = (x # ps) @ l @ ss" by simp
      then show ?thesis by blast
    qed
  next
    case False
    with Cons.prems f have "l = x # f \<or> l \<in> set fs" by auto
    then show ?thesis
    proof
      assume l: "l = x # f"
      have "startswith s f"
        using f
      proof (induction s arbitrary: f fs)
        case Nil
        then show ?case by simp
      next
        case (Cons y s)
        then show ?case by (auto split: if_splits list.splits)
      qed
      then obtain r where "s = f @ r" using startswith_iff by blast
      then have "x # s = [] @ l @ r" using l by simp
      then show ?thesis by blast
    next
      assume "l \<in> set fs"
      then have "l \<in> set (split_char c s)" using f by simp
      then obtain ps ss where "s = ps @ l @ ss" using Cons.IH by blast
      then have "x # s = (x # ps) @ l @ ss" by simp
      then show ?thesis by blast
    qed
  qed
qed


text \<open>
  Claim C4, as stated, promises the answers "Added" and then "Already present" for every
  target and every table.  Where the target already occurs in the table, here as the
  beginning of the path of another entry, the first answer is "Already present", and the
  table holds no swap line for the target.
\<close>

theorem update_fstab_first_answer_already_present:
  "update_fstab init_manager (empty_world\<lparr>fstab := ''/swapfile2 none swap sw 0 0'' @ LF\<rparr>)
     = (''Already present'', empty_world\<lparr>fstab := ''/swapfile2 none swap sw 0 0'' @ LF\<rparr>)
   \<and> swap_lines_for ''/swapfile'' (''/swapfile2 none swap sw 0 0'' @ LF) = []"
  by code_simp

text \<open>
  Claim C4, amended.  For a readable and writable mount table in which the target does not
  occur, two updates with the same target answer "Added" and then "Already present"; the
  first appends a line feed, the line of the target and a line feed behind the old text,
  which stays as it is, and the second changes nothing.  For a target without line feed the
  lines of the new table are those of the old one followed by the swap line (and the empty
  rest behind the last line feed), and exactly one of them is the swap line of the target.
  The update at the end of \<^verbatim>\<open>create_swap_partition\<close> behaves in the same way.
\<close>

theorem update_fstab_twice:
  assumes "\<not> contains target (fstab w)" and "fstab_readable w" and "fstab_writable w"
    and "swap_file_path m = target"
  shows "update_fstab m w = (''Added'', w\<lparr>fstab := fstab w @ LF @ fstab_line target @ LF\<rparr>)
       \<and> update_fstab m (w\<lparr>fstab := fstab w @ LF @ fstab_line target @ LF\<rparr>)
           = (''Already present'', w\<lparr>fstab := fstab w @ LF @ fstab_line target @ LF\<rparr>)
       \<and> partition_fstab target w
           = (Inr True, w\<lparr>fstab := fstab w @ LF @ fstab_line target @ LF\<rparr>)
       \<and> partition_fstab target (w\<lparr>fstab := fstab w @ LF @ fstab_line target @ LF\<rparr>)
           = (Inr False, w\<lparr>fstab := fstab w @ LF @ fstab_line target @ LF\<rparr>)
       \<and> (CHR 0x0A \<notin> set target \<longrightarrow>
            split_char (CHR 0x0A) (fstab w @ LF @ fstab_line target @ LF)
              = split_char (CHR 0x0A) (fstab w) @ [fstab_line target, []]
            \<and> swap_lines_for target (fstab w @ LF @ fstab_line target @ LF) = [fstab_line target])"
proof -
  let ?new = "fstab w @ LF @ fstab_line target @ LF"
  have "?new = (fstab w @ LF) @ target @ ('' none swap sw 0 0'' @ LF)"
    by (simp add: fstab_line_def)
  then have present: "contains target ?new"
    using contains_iff by blast
  have first: "update_fstab m w = (''Added'', w\<lparr>fstab := ?new\<rparr>)"
    using assms by (simp add: update_fstab_def LF_def)
  have second: "update_fstab m (w\<lparr>fstab := ?new\<rparr>) = (''Already present'', w\<lparr>fstab := ?new\<rparr>)"
    using assms present by (simp add: update_fstab_def)
  have pfirst: "partition_fstab target w = (Inr True, w\<lparr>fstab := ?new\<rparr>)"
    using assms by (simp add: partition_fstab_def LF_def)
  have psecond: "partition_fstab target (w\<lparr>fstab := ?new\<rparr>) = (Inr False, w\<lparr>fstab := ?new\<rparr>)"
    using assms present by (simp add: partition_fstab_def)
  have lines: "split_char (CHR 0x0A) ?new = split_char (CHR 0x0A) (fstab w) @ [fstab_line target, []]
               \<and> swap_lines_for target ?new = [fstab_line target]"
    if nl: "CHR 0x0A \<notin> set target"
  proof -
    have "CHR 0x0A \<notin> set (fstab_line target)"
      using nl by (simp add: fstab_line_def)
    then have one: "split_char (CHR 0x0A) (fstab_line target) = [fstab_line target]"
      by (rule split_char_no_separator)
    have "split_char (CHR 0x0A) (fstab_line target @ LF) = [fstab_line target, []]"
      using split_char_append [of "CHR 0x0A" "fstab_line target" "[]"] one by (simp add: LF_def)
    then have split: "split_char (CHR 0x0A) ?new
                        = split_char (CHR 0x0A) (fstab w) @ [fstab_line target, []]"
      using split_char_append [of "CHR 0x0A" "fstab w" "fstab_line target @ LF"]
      by (simp add: LF_def)
    have old: "fstab_line target \<notin> set (split_char (CHR 0x0A) (fstab w))"
    proof
      assume "fstab_line target \<in> set (split_char (CHR 0x0A) (fstab w))"
      then obtain ps ss where "fstab w = ps @ fstab_line target @ ss"
        using split_char_substring by blast
      then have "fstab w = ps @ target @ ('' none swap sw 0 0'' @ ss)"
        by (simp add: fstab_line_def)
      then have "contains target (fstab w)" using contains_iff by blast
      with assms(1) show False by simp
    qed
    have "filter (\<lambda>l. l = fstab_line target) (split_char (CHR 0x0A) (fstab w)) = []"
      using old by (auto simp: filter_empty_conv)
    moreover have "fstab_line target \<noteq> []" by (simp add: fstab_line_def)
    ultimately have "swap_lines_for target ?new = [fstab_line target]"
      unfolding swap_lines_for_def split by auto
    with split show ?thesis by simp
  qed
  show ?thesis
    using first second pfirst psecond lines by blast
qed

theorem update_fstab_twice_witness:
  "update_fstab init_manager (empty_world\<lparr>fstab := root_only_table\<rparr>)
     = (''Added'', empty_world\<lparr>fstab := root_only_table @ LF @ ''/swapfile none swap sw 0 0'' @ LF\<rparr>)
   \<and> update_fstab init_manager
        (empty_world\<lparr>fstab := root_only_table @ LF @ ''/swapfile none swap sw 0 0'' @ LF\<rparr>)
     = (''Already present'',
        empty_world\<lparr>fstab := root_only_table @ LF @ ''/swapfile none swap sw 0 0'' @ LF\<rparr>)
   \<and> swap_lines_for ''/swapfile'' (root_only_table @ LF @ ''/swapfile none swap sw 0 0'' @ LF)
     = [''/swapfile none swap sw 0 0'']"
proof -
  have a: "\<not> contains ''/swapfile'' (fstab (empty_world\<lparr>fstab := root_only_table\<rparr>))"
    by code_simp
  have b: "fstab_readable (empty_world\<lparr>fstab := root_only_table\<rparr>)"
    by (simp add: empty_world_def)
  have c: "fstab_writable (empty_world\<lparr>fstab := root_only_table\<rparr>)"
    by (simp add: empty_world_def)
  have d: "swap_file_path init_manager = ''/swapfile''"
    by (simp add: init_manager_def)
  have e: "CHR 0x0A \<notin> set ''/swapfile''" by simp
  show ?thesis
    using e update_fstab_twice [OF a b c d] by (simp add: fstab_line_def)
qed

section \<open>The syntax of size strings\<close>




















section \<open>Reading the number and the unit\<close>















section \<open>The byte count\<close>






section \<open>The size parser\<close>




section \<open>The sign of the byte count\<close>





section \<open>The check of the free space\<close>







end
